theory Spec2Isabelle
  imports Main "HOL-Library.Sublist"
begin

section \<open>Strings\<close>

text \<open>
  A Python \<open>str\<close> is a sequence of Unicode code points; it is modelled as a list of
  code points. \<open>cps\<close> turns an ASCII literal into that representation.
\<close>

type_synonym pystr = "nat list"

definition cps :: "string \<Rightarrow> pystr" where
  "cps s = map of_char s"

section \<open>Storage: the four tables of \<open>db_init\<close>\<close>

text \<open>
  One record per table row, with the columns of the \<open>CREATE TABLE\<close> statements.
  \<open>variants_json\<close> is kept decoded (the list that \<open>json.loads\<close> returns); the
  \<open>active\<close> column is an SQL integer and stays an integer.
\<close>

record product =
  p_id :: int
  p_title :: pystr
  p_price :: int
  p_description :: pystr
  p_photo_file_id :: pystr
  p_variants :: "pystr list"
  p_active :: int
  p_created_at :: pystr

record cart_row =
  c_user_id :: int
  c_product_id :: int
  c_variant :: pystr
  c_qty :: int

record order_row =
  o_id :: int
  o_user_id :: int
  o_username :: pystr
  o_full_name :: pystr
  o_phone :: pystr
  o_city :: pystr
  o_np_type :: pystr
  o_np_point :: pystr
  o_payment :: pystr
  o_comment :: pystr
  o_total :: int
  o_created_at :: pystr

record order_item =
  oi_id :: int
  oi_order_id :: int
  oi_product_id :: int
  oi_title :: pystr
  oi_variant :: pystr
  oi_price :: int
  oi_qty :: int

text \<open>
  The database file: each table is the list of its rows in insertion order. The two
  \<open>AUTOINCREMENT\<close> keys that the modelled code draws are kept as counters (the last
  key handed out), as SQLite keeps them in \<open>sqlite_sequence\<close>.
\<close>

record db =
  products :: "product list"
  cart :: "cart_row list"
  orders :: "order_row list"
  order_items :: "order_item list"
  orders_seq :: int
  order_items_seq :: int

datatype error = IntegrityError | KeyError | AttributeError | IndexError | OperationalError

text \<open>
  \<open>aiosqlite.connect(DB_PATH)\<close> opens a new connection each time. Foreign-key
  enforcement is a property of one connection, off when the connection is opened; the
  only \<open>PRAGMA foreign_keys = ON\<close> of the source is executed inside \<open>db_init\<close>, on
  the connection that \<open>db_init\<close> itself opens and closes. Every statement below takes
  the enforcement flag of the connection that executes it.
\<close>

definition connect_foreign_keys :: bool where
  "connect_foreign_keys = False"

definition db_execute :: "(bool \<Rightarrow> db \<Rightarrow> error + db) \<Rightarrow> db \<Rightarrow> error + db" where
  "db_execute stmt d = stmt connect_foreign_keys d"

subsection \<open>The SQL statements of the cart handlers\<close>

definition cart_key_is :: "int \<Rightarrow> int \<Rightarrow> pystr \<Rightarrow> cart_row \<Rightarrow> bool" where
  "cart_key_is u pid v r = (c_user_id r = u \<and> c_product_id r = pid \<and> c_variant r = v)"

text \<open>\<open>SELECT qty FROM cart WHERE user_id=? AND product_id=? AND variant=?\<close>, \<open>fetchone\<close>.\<close>

definition sql_select_qty :: "int \<Rightarrow> int \<Rightarrow> pystr \<Rightarrow> db \<Rightarrow> int option" where
  "sql_select_qty u pid v d =
     (case filter (cart_key_is u pid v) (cart d) of [] \<Rightarrow> None | r # _ \<Rightarrow> Some (c_qty r))"

text \<open>
  \<open>INSERT INTO cart(user_id, product_id, variant, qty) VALUES(?,?,?,1)
  ON CONFLICT(user_id, product_id, variant) DO UPDATE SET qty=qty+1\<close>.
  With enforcement on, inserting a row whose product does not exist violates the
  foreign key.
\<close>

definition sql_cart_upsert :: "int \<Rightarrow> int \<Rightarrow> pystr \<Rightarrow> bool \<Rightarrow> db \<Rightarrow> error + db" where
  "sql_cart_upsert u pid v fk d =
     (if list_ex (cart_key_is u pid v) (cart d)
      then Inr (d\<lparr>cart := map (\<lambda>r. if cart_key_is u pid v r then r\<lparr>c_qty := c_qty r + 1\<rparr> else r) (cart d)\<rparr>)
      else if fk \<and> \<not> list_ex (\<lambda>p. p_id p = pid) (products d) then Inl IntegrityError
      else Inr (d\<lparr>cart := cart d @ [\<lparr>c_user_id = u, c_product_id = pid, c_variant = v, c_qty = 1\<rparr>]\<rparr>))"

text \<open>\<open>UPDATE cart SET qty=qty+k WHERE user_id=? AND product_id=? AND variant=?\<close>.\<close>

definition sql_cart_add_qty :: "int \<Rightarrow> int \<Rightarrow> int \<Rightarrow> pystr \<Rightarrow> bool \<Rightarrow> db \<Rightarrow> error + db" where
  "sql_cart_add_qty k u pid v fk d =
     Inr (d\<lparr>cart := map (\<lambda>r. if cart_key_is u pid v r then r\<lparr>c_qty := c_qty r + k\<rparr> else r) (cart d)\<rparr>)"

text \<open>\<open>DELETE FROM cart WHERE user_id=? AND product_id=? AND variant=?\<close>.\<close>

definition sql_cart_delete :: "int \<Rightarrow> int \<Rightarrow> pystr \<Rightarrow> bool \<Rightarrow> db \<Rightarrow> error + db" where
  "sql_cart_delete u pid v fk d =
     Inr (d\<lparr>cart := filter (\<lambda>r. \<not> cart_key_is u pid v r) (cart d)\<rparr>)"

text \<open>\<open>DELETE FROM cart WHERE user_id=?\<close>.\<close>

definition sql_cart_delete_user :: "int \<Rightarrow> bool \<Rightarrow> db \<Rightarrow> error + db" where
  "sql_cart_delete_user u fk d = Inr (d\<lparr>cart := filter (\<lambda>r. c_user_id r \<noteq> u) (cart d)\<rparr>)"

subsection \<open>Reading the cart: \<open>cart_total\<close> and \<open>cart_items\<close>\<close>

text \<open>
  Both queries join \<open>cart c\<close> with \<open>products p ON p.id=c.product_id\<close> and keep the
  rows with \<open>c.user_id=? AND p.active=1\<close>.
\<close>

definition cart_join :: "int \<Rightarrow> db \<Rightarrow> (cart_row \<times> product) list" where
  "cart_join u d =
     concat (map (\<lambda>c. map (\<lambda>p. (c, p))
                         (filter (\<lambda>p. p_id p = c_product_id c \<and> p_active p = 1) (products d)))
                 (filter (\<lambda>c. c_user_id c = u) (cart d)))"

definition cart_total :: "int \<Rightarrow> db \<Rightarrow> int" where
  "cart_total u d = sum_list (map (\<lambda>(c, p). c_qty c * p_price p) (cart_join u d))"

text \<open>
  A row of \<open>cart_items\<close>: \<open>c.product_id, p.title, p.price, c.qty, c.variant\<close>. The rows
  come \<open>ORDER BY p.id DESC\<close>; SQL leaves the order of rows of one product open, the
  model keeps them in table order (a stable sort).
\<close>

record cart_item =
  it_product_id :: int
  it_title :: pystr
  it_price :: int
  it_qty :: int
  it_variant :: pystr

definition cart_items :: "int \<Rightarrow> db \<Rightarrow> cart_item list" where
  "cart_items u d =
     map (\<lambda>(c, p). \<lparr>it_product_id = c_product_id c, it_title = p_title p, it_price = p_price p,
                    it_qty = c_qty c, it_variant = c_variant c\<rparr>)
         (sort_key (\<lambda>(c, p). - p_id p) (cart_join u d))"

subsection \<open>The cart handlers\<close>

text \<open>
  What a handler sends back. The texts of the source are Ukrainian literals; each
  constructor stands for one of them (or for one rendered view).
\<close>

datatype reply =
    Answer                          \<comment> \<open>\<open>c.answer()\<close> with no text\<close>
  | Alert_not_found                 \<comment> \<open>the "product not found" alert of \<open>cart_add\<close>\<close>
  | Alert_cart_empty                \<comment> \<open>the "cart is empty" alert\<close>
  | Answer_added                    \<comment> \<open>"added to the cart"\<close>
  | Answer_added_variant pystr      \<comment> \<open>"added (variant)"\<close>
  | Answer_deleted                  \<comment> \<open>"deleted"\<close>
  | Answer_cleared                  \<comment> \<open>"cart cleared"\<close>
  | Choose_variant int "pystr list" \<comment> \<open>the keyboard of variants of a product\<close>
  | Cart_empty_view                 \<comment> \<open>\<open>cart_view\<close> on an empty listing\<close>
  | Cart_view "cart_item list" int  \<comment> \<open>\<open>cart_view\<close>: the listing and the total\<close>
  | Alert_no_access                 \<comment> \<open>the "no access" alert of the admin handlers\<close>
  | Alert_admin_not_found           \<comment> \<open>the "not found" alert of \<open>admin_toggle\<close>\<close>
  | Answer_updated                  \<comment> \<open>"updated"\<close>
  | Products_page int               \<comment> \<open>\<open>admin_products\<close> rendering the page of that number\<close>
  | Prompt_full_name                \<comment> \<open>"enter first and last name"\<close>
  | Prompt_phone                    \<comment> \<open>"enter the phone number"\<close>
  | Bad_phone                       \<comment> \<open>"looks like a wrong number, try again"\<close>
  | Prompt_city                     \<comment> \<open>"enter the city"\<close>
  | Prompt_np_type                  \<comment> \<open>"choose the delivery type", with its keyboard\<close>
  | Prompt_branch                   \<comment> \<open>"enter the branch number or address"\<close>
  | Prompt_locker                   \<comment> \<open>"enter the locker number or address"\<close>
  | Prompt_payment                  \<comment> \<open>"choose the payment", with its keyboard\<close>
  | Prompt_comment                  \<comment> \<open>"comment (a dash when there is none)"\<close>
  | Preview "cart_item list" int    \<comment> \<open>the order preview with its confirm and cancel buttons\<close>
  | Cancelled                       \<comment> \<open>"cancelled"\<close>
  | Order_done int                  \<comment> \<open>"order placed, number #id"\<close>
  | Answer_done                     \<comment> \<open>"done"\<close>

definition cart_view :: "int \<Rightarrow> db \<Rightarrow> reply list" where
  "cart_view u d =
     (let items = cart_items u d in
      if items = [] then [Cart_empty_view, Answer]
      else [Cart_view items (cart_total u d), Answer])"

text \<open>
  The handlers below take the user id of the callback and the arguments that the
  handler parses out of the callback data (\<open>cart:add:<pid>\<close>, \<open>cart:inc:<pid>:<variant>\<close>,
  ...). A handler returns the stored database and its replies, or the exception that
  ended it; an exception leaves the stored database as it was.
\<close>

definition cart_clear :: "int \<Rightarrow> db \<Rightarrow> error + db \<times> reply list" where
  "cart_clear u d =
     (case db_execute (sql_cart_delete_user u) d of
        Inl e \<Rightarrow> Inl e
      | Inr d' \<Rightarrow> Inr (d', Answer_cleared # cart_view u d'))"

definition cart_add :: "int \<Rightarrow> int \<Rightarrow> db \<Rightarrow> error + db \<times> reply list" where
  "cart_add u pid d =
     (case filter (\<lambda>p. p_id p = pid \<and> p_active p = 1) (products d) of
        [] \<Rightarrow> Inr (d, [Alert_not_found])
      | p # _ \<Rightarrow>
          if p_variants p \<noteq> [] then Inr (d, [Choose_variant pid (p_variants p), Answer])
          else (case db_execute (sql_cart_upsert u pid []) d of
                  Inl e \<Rightarrow> Inl e
                | Inr d' \<Rightarrow> Inr (d', [Answer_added])))"

definition cart_add_variant :: "int \<Rightarrow> int \<Rightarrow> pystr \<Rightarrow> db \<Rightarrow> error + db \<times> reply list" where
  "cart_add_variant u pid v d =
     (case db_execute (sql_cart_upsert u pid v) d of
        Inl e \<Rightarrow> Inl e
      | Inr d' \<Rightarrow> Inr (d', Answer_added_variant v # cart_view u d'))"

definition cart_inc :: "int \<Rightarrow> int \<Rightarrow> pystr \<Rightarrow> db \<Rightarrow> error + db \<times> reply list" where
  "cart_inc u pid v d =
     (case db_execute (sql_cart_add_qty 1 u pid v) d of
        Inl e \<Rightarrow> Inl e
      | Inr d' \<Rightarrow> Inr (d', Answer # cart_view u d'))"

definition cart_dec :: "int \<Rightarrow> int \<Rightarrow> pystr \<Rightarrow> db \<Rightarrow> error + db \<times> reply list" where
  "cart_dec u pid v d =
     (case sql_select_qty u pid v d of
        None \<Rightarrow> Inr (d, [Answer])
      | Some qty \<Rightarrow>
          (case (if qty \<le> 1 then db_execute (sql_cart_delete u pid v) d
                 else db_execute (sql_cart_add_qty (- 1) u pid v) d) of
             Inl e \<Rightarrow> Inl e
           | Inr d' \<Rightarrow> Inr (d', Answer # cart_view u d')))"

definition cart_del :: "int \<Rightarrow> int \<Rightarrow> pystr \<Rightarrow> db \<Rightarrow> error + db \<times> reply list" where
  "cart_del u pid v d =
     (case db_execute (sql_cart_delete u pid v) d of
        Inl e \<Rightarrow> Inl e
      | Inr d' \<Rightarrow> Inr (d', Answer_deleted # cart_view u d'))"

subsection \<open>Sequences of increments and decrements on one key\<close>

datatype cart_op = Increment | Decrement

definition apply_cart_op :: "int \<Rightarrow> int \<Rightarrow> pystr \<Rightarrow> db \<Rightarrow> cart_op \<Rightarrow> db" where
  "apply_cart_op u pid v d opn =
     (case (case opn of Increment \<Rightarrow> cart_inc u pid v d | Decrement \<Rightarrow> cart_dec u pid v d) of
        Inl e \<Rightarrow> d
      | Inr (d', rs) \<Rightarrow> d')"






definition products_pk :: "db \<Rightarrow> bool" where
  "products_pk d = distinct (map p_id (products d))"


text \<open>
  The specification's total, written from its words: the sum of quantity times unit
  price over the user's cart entries whose product has the active flag set.
\<close>

definition find_product :: "db \<Rightarrow> int \<Rightarrow> product option" where
  "find_product d pid = find (\<lambda>p. p_id p = pid) (products d)"

definition product_active :: "db \<Rightarrow> int \<Rightarrow> bool" where
  "product_active d pid = (case find_product d pid of None \<Rightarrow> False | Some p \<Rightarrow> p_active p = 1)"

definition unit_price :: "db \<Rightarrow> int \<Rightarrow> int" where
  "unit_price d pid = (case find_product d pid of None \<Rightarrow> 0 | Some p \<Rightarrow> p_price p)"

definition spec_total :: "int \<Rightarrow> db \<Rightarrow> int" where
  "spec_total u d =
     sum_list (map (\<lambda>c. c_qty c * unit_price d (c_product_id c))
                   (filter (\<lambda>c. c_user_id c = u \<and> product_active d (c_product_id c)) (cart d)))"

section \<open>The admin handlers on products\<close>

text \<open>
  \<open>config.py\<close> is not part of the sources: its constants are parameters.
  \<open>py_lower\<close> stands for Python's \<open>str.lower\<close>.
\<close>

record config =
  ADMIN_IDS :: "int option list"
  ADMIN_USERNAME :: pystr
  py_lower :: "pystr \<Rightarrow> pystr"

definition is_admin_user :: "config \<Rightarrow> int \<Rightarrow> pystr option \<Rightarrow> bool" where
  "is_admin_user cfg user_id username =
     (if Some user_id \<in> set (ADMIN_IDS cfg) then True
      else (case username of
              None \<Rightarrow> False
            | Some n \<Rightarrow> n \<noteq> [] \<and> py_lower cfg n = py_lower cfg (ADMIN_USERNAME cfg)))"

text \<open>\<open>UPDATE products SET active=? WHERE id=?\<close>.\<close>

definition sql_set_active :: "int \<Rightarrow> int \<Rightarrow> bool \<Rightarrow> db \<Rightarrow> error + db" where
  "sql_set_active a pid fk d =
     Inr (d\<lparr>products := map (\<lambda>p. if p_id p = pid then p\<lparr>p_active := a\<rparr> else p) (products d)\<rparr>)"

text \<open>
  \<open>DELETE FROM products WHERE id=?\<close>. The \<open>cart\<close> table declares
  \<open>FOREIGN KEY(product_id) REFERENCES products(id) ON DELETE CASCADE\<close>: the cart rows
  of the product go with it when the executing connection enforces foreign keys.
\<close>

definition sql_delete_product :: "int \<Rightarrow> bool \<Rightarrow> db \<Rightarrow> error + db" where
  "sql_delete_product pid fk d =
     Inr (d\<lparr>products := filter (\<lambda>p. p_id p \<noteq> pid) (products d),
            cart := (if fk then filter (\<lambda>r. c_product_id r \<noteq> pid) (cart d) else cart d)\<rparr>)"

text \<open>
  \<open>admin_toggle\<close> and \<open>admin_del\<close> for the callback data \<open>admin:toggle:<pid>\<close> and
  \<open>admin:del:<pid>\<close>. Both end in \<open>admin_products(c)\<close>, which reads its page number
  from the same callback data.
\<close>

definition admin_toggle :: "config \<Rightarrow> int \<Rightarrow> pystr option \<Rightarrow> int \<Rightarrow> db \<Rightarrow> error + db \<times> reply list" where
  "admin_toggle cfg u uname pid d =
     (if \<not> is_admin_user cfg u uname then Inr (d, [Alert_no_access])
      else (case filter (\<lambda>p. p_id p = pid) (products d) of
              [] \<Rightarrow> Inr (d, [Alert_admin_not_found])
            | p # _ \<Rightarrow>
                (let new_active = (if p_active p = 1 then 0 else 1) in
                 case db_execute (sql_set_active new_active pid) d of
                   Inl e \<Rightarrow> Inl e
                 | Inr d' \<Rightarrow> Inr (d', [Answer_updated, Products_page pid, Answer]))))"

definition admin_del :: "config \<Rightarrow> int \<Rightarrow> pystr option \<Rightarrow> int \<Rightarrow> db \<Rightarrow> error + db \<times> reply list" where
  "admin_del cfg u uname pid d =
     (if \<not> is_admin_user cfg u uname then Inr (d, [Alert_no_access])
      else (case db_execute (sql_delete_product pid) d of
              Inl e \<Rightarrow> Inl e
            | Inr d' \<Rightarrow> Inr (d', [Answer_deleted, Products_page pid, Answer])))"

section \<open>The checkout conversation\<close>

subsection \<open>Text helpers\<close>

text \<open>
  \<open>str.strip()\<close> removes leading and trailing whitespace; \<open>is_space\<close> lists the code
  points that Python counts as whitespace.
\<close>

definition is_space :: "nat \<Rightarrow> bool" where
  "is_space c =
     (c \<in> set [9, 10, 11, 12, 13, 28, 29, 30, 31, 32, 133, 160, 5760, 8232, 8233, 8239, 8287, 12288]
      \<or> (8192 \<le> c \<and> c \<le> 8202))"

definition py_strip :: "pystr \<Rightarrow> pystr" where
  "py_strip t = rev (dropWhile is_space (rev (dropWhile is_space t)))"




text \<open>\<open>str.split(sep)\<close> for a separator of one character.\<close>

fun split_on :: "nat \<Rightarrow> pystr \<Rightarrow> pystr list" where
  "split_on sep [] = [[]]"
| "split_on sep (c # cs) =
     (if c = sep then [] # split_on sep cs
      else (case split_on sep cs of
              [] \<Rightarrow> [[c]]
            | x # xs \<Rightarrow> (c # x) # xs))"

text \<open>The literals that the handlers store: the two payment labels and the two delivery labels.\<close>

definition payment_cod :: pystr where
  "payment_cod = [1053, 1072, 1082, 1083, 1072, 1076, 1077, 1085, 1080, 1081, 32,
                  1087, 1083, 1072, 1090, 1110, 1078]"

definition payment_prepay :: pystr where
  "payment_prepay = [1055, 1077, 1088, 1077, 1076, 1086, 1087, 1083, 1072, 1090, 1072]"

definition label_branch :: pystr where
  "label_branch = [1042, 1110, 1076, 1076, 1110, 1083, 1077, 1085, 1085, 1103]"

definition label_locker :: pystr where
  "label_locker = [1055, 1086, 1096, 1090, 1086, 1084, 1072, 1090]"

subsection \<open>The session\<close>

text \<open>
  The states of \<open>class Checkout(StatesGroup)\<close>, and the FSM context of one user: its
  state (\<open>None\<close> when no state is set) and its data dictionary, one optional entry per
  key that the checkout handlers write.
\<close>

datatype step = Full_name | Phone | City | Np_type | Np_point | Payment | Comment | Confirm

record session =
  s_state :: "step option"
  s_full_name :: "pystr option"
  s_phone :: "pystr option"
  s_city :: "pystr option"
  s_np_type :: "pystr option"
  s_np_point :: "pystr option"
  s_payment :: "pystr option"
  s_comment :: "pystr option"

text \<open>\<open>state.clear()\<close>.\<close>

definition cleared :: session where
  "cleared = \<lparr>s_state = None, s_full_name = None, s_phone = None, s_city = None,
              s_np_type = None, s_np_point = None, s_payment = None, s_comment = None\<rparr>"

subsection \<open>The step handlers\<close>

text \<open>
  A handler is registered with a filter (a state, and for callbacks a condition on the
  callback data). The result \<open>None\<close> says that the filter does not let the event in,
  so the handler does not run. Otherwise the handler ends with the new session and its
  replies, or with an exception that leaves the session as it was. A message carries a
  text or none (\<open>m.text\<close> is \<open>None\<close> for a photo or a sticker).
\<close>

definition checkout_start :: "int \<Rightarrow> db \<Rightarrow> session \<Rightarrow> session \<times> reply list" where
  "checkout_start u d s =
     (if cart_items u d = [] then (s, [Alert_cart_empty])
      else (cleared\<lparr>s_state := Some Full_name\<rparr>, [Prompt_full_name, Answer]))"

definition co_full_name :: "session \<Rightarrow> pystr option \<Rightarrow> (error + session \<times> reply list) option" where
  "co_full_name s txt =
     (if s_state s = Some Full_name then
        Some (case txt of
                None \<Rightarrow> Inl AttributeError
              | Some t \<Rightarrow> Inr (s\<lparr>s_full_name := Some (py_strip t), s_state := Some Phone\<rparr>, [Prompt_phone]))
      else None)"


definition co_city :: "session \<Rightarrow> pystr option \<Rightarrow> (error + session \<times> reply list) option" where
  "co_city s txt =
     (if s_state s = Some City then
        Some (case txt of
                None \<Rightarrow> Inl AttributeError
              | Some t \<Rightarrow> Inr (s\<lparr>s_city := Some (py_strip t), s_state := Some Np_type\<rparr>, [Prompt_np_type]))
      else None)"

text \<open>
  \<open>co_np_type\<close>: filter \<open>Checkout.np_type, F.data.startswith("np:type:")\<close>; the stored
  value is \<open>c.data.split(":")[2]\<close> (58 is the colon).
\<close>

definition co_np_type :: "session \<Rightarrow> pystr \<Rightarrow> (error + session \<times> reply list) option" where
  "co_np_type s cdata =
     (if s_state s = Some Np_type \<and> prefix (cps ''np:type:'') cdata then
        Some (case drop 2 (split_on 58 cdata) of
                [] \<Rightarrow> Inl IndexError
              | np_type # _ \<Rightarrow>
                  Inr (s\<lparr>s_np_type := Some np_type, s_state := Some Np_point\<rparr>,
                       [if np_type = cps ''branch'' then Prompt_branch else Prompt_locker, Answer]))
      else None)"

definition co_np_point :: "session \<Rightarrow> pystr option \<Rightarrow> (error + session \<times> reply list) option" where
  "co_np_point s txt =
     (if s_state s = Some Np_point then
        Some (case txt of
                None \<Rightarrow> Inl AttributeError
              | Some t \<Rightarrow> Inr (s\<lparr>s_np_point := Some (py_strip t), s_state := Some Payment\<rparr>, [Prompt_payment]))
      else None)"

text \<open>
  \<open>co_payment\<close>: filter \<open>Checkout.payment, F.data.startswith("pay:")\<close>; the token is
  \<open>c.data.split(":")[1]\<close>.
\<close>

definition co_payment :: "session \<Rightarrow> pystr \<Rightarrow> (error + session \<times> reply list) option" where
  "co_payment s cdata =
     (if s_state s = Some Payment \<and> prefix (cps ''pay:'') cdata then
        Some (case drop 1 (split_on 58 cdata) of
                [] \<Rightarrow> Inl IndexError
              | p # _ \<Rightarrow>
                  (let payment = (if p = cps ''cod'' then payment_cod else payment_prepay) in
                   Inr (s\<lparr>s_payment := Some payment, s_state := Some Comment\<rparr>, [Prompt_comment, Answer])))
      else None)"

text \<open>
  The values that the preview and the order read out of the data dictionary with
  \<open>data[...]\<close>; a missing key raises \<open>KeyError\<close>.
\<close>

record order_fields =
  f_full_name :: pystr
  f_phone :: pystr
  f_city :: pystr
  f_np_type :: pystr
  f_np_point :: pystr
  f_payment :: pystr
  f_comment :: pystr

definition read_fields :: "session \<Rightarrow> order_fields option" where
  "read_fields s =
     (case (s_np_type s, s_full_name s, s_phone s, s_city s, s_np_point s, s_payment s, s_comment s) of
        (Some t, Some n, Some ph, Some ci, Some pt, Some pay, Some co) \<Rightarrow>
          Some \<lparr>f_full_name = n, f_phone = ph, f_city = ci, f_np_type = t, f_np_point = pt,
                f_payment = pay, f_comment = co\<rparr>
      | _ \<Rightarrow> None)"

text \<open>
  \<open>co_comment\<close> writes the comment with \<open>update_data\<close> before it builds the preview,
  so its result carries the session also when the preview raises.
\<close>

definition co_comment :: "int \<Rightarrow> db \<Rightarrow> session \<Rightarrow> pystr option \<Rightarrow> (session \<times> (error + reply list)) option" where
  "co_comment u d s txt =
     (if s_state s = Some Comment then
        Some (case txt of
                None \<Rightarrow> (s, Inl AttributeError)
              | Some t \<Rightarrow>
                  (let s1 = s\<lparr>s_comment := Some (py_strip t)\<rparr> in
                   case read_fields s1 of
                     None \<Rightarrow> (s1, Inl KeyError)
                   | Some f \<Rightarrow>
                       (s1\<lparr>s_state := Some Confirm\<rparr>,
                        Inr [Preview (cart_items u d) (cart_total u d)])))
      else None)"

definition checkout_cancel :: "session \<Rightarrow> pystr \<Rightarrow> (session \<times> reply list) option" where
  "checkout_cancel s cdata =
     (if s_state s = Some Confirm \<and> cdata = cps ''checkout:cancel''
      then Some (cleared, [Cancelled, Answer]) else None)"

section \<open>Order commit: \<open>checkout_confirm\<close>\<close>

subsection \<open>The statements of the commit\<close>

text \<open>
  \<open>INSERT INTO orders(user_id, ..., total, created_at) VALUES(...)\<close>: the key is drawn
  from the sequence; \<open>cur.lastrowid\<close> is then \<open>orders_seq\<close> of the result.
\<close>

definition sql_insert_order :: "order_row \<Rightarrow> bool \<Rightarrow> db \<Rightarrow> error + db" where
  "sql_insert_order row fk d =
     Inr (d\<lparr>orders := orders d @ [row\<lparr>o_id := orders_seq d + 1\<rparr>],
            orders_seq := orders_seq d + 1\<rparr>)"

text \<open>
  \<open>INSERT INTO order_items(order_id, product_id, title, variant, price, qty)\<close> with the
  values \<open>(order_id, pid, title, variant or "", price, qty)\<close> of one row of the snapshot.
\<close>

definition item_row :: "int \<Rightarrow> cart_item \<Rightarrow> order_item" where
  "item_row order_id i =
     \<lparr>oi_id = 0, oi_order_id = order_id, oi_product_id = it_product_id i, oi_title = it_title i,
      oi_variant = it_variant i, oi_price = it_price i, oi_qty = it_qty i\<rparr>"

definition sql_insert_order_item :: "int \<Rightarrow> cart_item \<Rightarrow> bool \<Rightarrow> db \<Rightarrow> error + db" where
  "sql_insert_order_item order_id i fk d =
     (if fk \<and> \<not> list_ex (\<lambda>r. o_id r = order_id) (orders d) then Inl IntegrityError
      else Inr (d\<lparr>order_items := order_items d @ [(item_row order_id i)\<lparr>oi_id := order_items_seq d + 1\<rparr>],
                  order_items_seq := order_items_seq d + 1\<rparr>))"

subsection \<open>The transaction\<close>

text \<open>
  The commit runs on one connection, inside \<open>async with aiosqlite.connect(DB_PATH)\<close>:
  the statements work on the connection's uncommitted view of the database, and only
  the final \<open>db.commit()\<close> stores that view. A call that raises leaves the block, the
  connection is closed and its view is dropped.

  \<open>fault\<close> is the storage failure of one run: \<open>Some k\<close> when the call number \<open>k\<close> of
  the block raises (call 0 is the insert of the order, calls 1 to n are the inserts of
  the n items, call n+1 is the delete of the cart, call n+2 is the commit), \<open>None\<close>
  when no call does.
\<close>

definition tx_call :: "nat option \<Rightarrow> nat \<Rightarrow> (bool \<Rightarrow> db \<Rightarrow> error + db) \<Rightarrow> db \<Rightarrow> error + db" where
  "tx_call fault k stmt w =
     (if fault = Some k then Inl OperationalError else stmt connect_foreign_keys w)"

fun insert_items :: "nat option \<Rightarrow> nat \<Rightarrow> int \<Rightarrow> cart_item list \<Rightarrow> db \<Rightarrow> error + db" where
  "insert_items fault k order_id [] w = Inr w"
| "insert_items fault k order_id (i # rest) w =
     (case tx_call fault k (sql_insert_order_item order_id i) w of
        Inl e \<Rightarrow> Inl e
      | Inr w' \<Rightarrow> insert_items fault (Suc k) order_id rest w')"

definition sql_commit :: "bool \<Rightarrow> db \<Rightarrow> error + db" where
  "sql_commit fk w = Inr w"

text \<open>The block: the committed database and the order id, or the exception.\<close>

definition checkout_tx :: "nat option \<Rightarrow> order_row \<Rightarrow> cart_item list \<Rightarrow> int \<Rightarrow> db \<Rightarrow> error + db \<times> int" where
  "checkout_tx fault row items u d =
     (case tx_call fault 0 (sql_insert_order row) d of
        Inl e \<Rightarrow> Inl e
      | Inr w1 \<Rightarrow>
          (let order_id = orders_seq w1 in
           case insert_items fault 1 order_id items w1 of
             Inl e \<Rightarrow> Inl e
           | Inr w2 \<Rightarrow>
               (case tx_call fault (length items + 1) (sql_cart_delete_user u) w2 of
                  Inl e \<Rightarrow> Inl e
                | Inr w3 \<Rightarrow>
                    (case tx_call fault (length items + 2) sql_commit w3 of
                       Inl e \<Rightarrow> Inl e
                     | Inr w4 \<Rightarrow> Inr (w4, order_id)))))"

subsection \<open>Notification\<close>

text \<open>
  The four outcomes that the notification loop prints. \<open>send k chat\<close> says whether the
  call number \<open>k\<close> of \<open>bot.send_message\<close> in this run, to that chat, succeeds.
\<close>

datatype send_event = Sent int | Failed int | Fallback_sent int | Fallback_failed int

fun notify_admins :: "(nat \<Rightarrow> int \<Rightarrow> bool) \<Rightarrow> nat \<Rightarrow> int option list \<Rightarrow> send_event list \<times> bool" where
  "notify_admins send k [] = ([], False)"
| "notify_admins send k (a # rest) =
     (case a of
        None \<Rightarrow> notify_admins send k rest
      | Some admin_id \<Rightarrow>
          if admin_id = 0 then notify_admins send k rest
          else if send k admin_id then ([Sent admin_id], True)
          else (case notify_admins send (Suc k) rest of
                  (evs, sent) \<Rightarrow> (Failed admin_id # evs, sent)))"

definition notify :: "(nat \<Rightarrow> int \<Rightarrow> bool) \<Rightarrow> int option list \<Rightarrow> int \<Rightarrow> send_event list" where
  "notify send admin_ids chat =
     (case notify_admins send 0 admin_ids of
        (evs, sent) \<Rightarrow>
          if sent then evs
          else evs @ [if send (length evs) chat then Fallback_sent chat else Fallback_failed chat])"

subsection \<open>The handler\<close>

text \<open>
  The surroundings of one run of the handler: the clock reading that becomes
  \<open>created_at\<close>, the storage failure, and the outcomes of the sends.
\<close>

record env =
  e_now :: pystr
  e_fault :: "nat option"
  e_send :: "nat \<Rightarrow> int \<Rightarrow> bool"

text \<open>
  What a run of \<open>checkout_confirm\<close> leaves: the stored database, the session, the
  exception that ended the handler (if one did), the replies to the user and the
  printed send outcomes.
\<close>

record confirm_result =
  r_db :: db
  r_session :: session
  r_raised :: "error option"
  r_replies :: "reply list"
  r_sends :: "send_event list"

definition order_values :: "int \<Rightarrow> pystr option \<Rightarrow> order_fields \<Rightarrow> int \<Rightarrow> pystr \<Rightarrow> order_row" where
  "order_values u uname f tot created =
     \<lparr>o_id = 0, o_user_id = u,
      o_username = (case uname of None \<Rightarrow> [] | Some n \<Rightarrow> n),
      o_full_name = f_full_name f, o_phone = f_phone f, o_city = f_city f,
      o_np_type = (if f_np_type f = cps ''branch'' then label_branch else label_locker),
      o_np_point = f_np_point f, o_payment = f_payment f, o_comment = f_comment f,
      o_total = tot, o_created_at = created\<rparr>"

text \<open>
  Filter: \<open>Checkout.confirm, F.data == "checkout:confirm"\<close>. \<open>u\<close>, \<open>uname\<close> and
  \<open>chat\<close> are \<open>c.from_user.id\<close>, \<open>c.from_user.username\<close> and \<open>c.message.chat.id\<close>.
  The text of the notification is a rendering of the snapshot and the fields and is
  left out.
\<close>

definition checkout_confirm ::
  "config \<Rightarrow> env \<Rightarrow> int \<Rightarrow> pystr option \<Rightarrow> int \<Rightarrow> session \<Rightarrow> pystr \<Rightarrow> db \<Rightarrow> confirm_result option" where
  "checkout_confirm cfg ev u uname chat s cdata d =
     (if s_state s = Some Confirm \<and> cdata = cps ''checkout:confirm'' then
        Some (let items = cart_items u d; tot = cart_total u d in
              if items = [] then
                \<lparr>r_db = d, r_session = s, r_raised = None, r_replies = [Alert_cart_empty], r_sends = []\<rparr>
              else
                (case read_fields s of
                   None \<Rightarrow>
                     \<lparr>r_db = d, r_session = s, r_raised = Some KeyError, r_replies = [], r_sends = []\<rparr>
                 | Some f \<Rightarrow>
                     (case checkout_tx (e_fault ev) (order_values u uname f tot (e_now ev)) items u d of
                        Inl e \<Rightarrow>
                          \<lparr>r_db = d, r_session = s, r_raised = Some e, r_replies = [], r_sends = []\<rparr>
                      | Inr (d', order_id) \<Rightarrow>
                          \<lparr>r_db = d', r_session = cleared, r_raised = None,
                           r_replies = [Order_done order_id, Answer_done],
                           r_sends = notify (e_send ev) (ADMIN_IDS cfg) chat\<rparr>)))
      else None)"

section \<open>What the specification expects of a commit and of the dispatcher\<close>



text \<open>
  The dispatcher of the specification, written from its words: the operator identities
  are the configured entries that are neither null nor zero, in order; they are tried in
  order up to the first success; when none succeeds the originating chat is tried.
\<close>

definition valid_targets :: "int option list \<Rightarrow> int list" where
  "valid_targets ids =
     concat (map (\<lambda>a. case a of None \<Rightarrow> [] | Some i \<Rightarrow> if i = 0 then [] else [i]) ids)"

definition failed_attempts :: "(nat \<Rightarrow> int \<Rightarrow> bool) \<Rightarrow> nat \<Rightarrow> int list \<Rightarrow> nat" where
  "failed_attempts send k targets =
     length (takeWhile (\<lambda>(j, i). \<not> send j i) (enumerate k targets))"

definition spec_dispatch :: "(nat \<Rightarrow> int \<Rightarrow> bool) \<Rightarrow> int list \<Rightarrow> int \<Rightarrow> send_event list" where
  "spec_dispatch send targets chat =
     (let n = failed_attempts send 0 targets in
      map Failed (take n targets)
      @ (if n < length targets then [Sent (targets ! n)]
         else [if send n chat then Fallback_sent chat else Fallback_failed chat]))"

section \<open>Concrete inputs\<close>

definition demo_product :: "int \<Rightarrow> int \<Rightarrow> pystr list \<Rightarrow> int \<Rightarrow> product" where
  "demo_product i pr vs a =
     \<lparr>p_id = i, p_title = cps ''item'', p_price = pr, p_description = [], p_photo_file_id = [],
      p_variants = vs, p_active = a, p_created_at = []\<rparr>"

definition demo_row :: "int \<Rightarrow> int \<Rightarrow> pystr \<Rightarrow> int \<Rightarrow> cart_row" where
  "demo_row u pid v q = \<lparr>c_user_id = u, c_product_id = pid, c_variant = v, c_qty = q\<rparr>"

definition demo_db :: "product list \<Rightarrow> cart_row list \<Rightarrow> db" where
  "demo_db ps cs = \<lparr>products = ps, cart = cs, orders = [], order_items = [], orders_seq = 0,
                    order_items_seq = 0\<rparr>"

text \<open>
  The cart of the specification's scenario: product 1 at 100, quantity 2, and product 2
  at 250 in variant M, quantity 1, both of user 7.
\<close>

definition shop_db :: db where
  "shop_db = demo_db [demo_product 1 100 [] 1, demo_product 2 250 [cps ''M''] 1]
                     [demo_row 7 1 [] 2, demo_row 7 2 (cps ''M'') 1]"

text \<open>The same products with product 2 switched off, and one row of each in the cart of user 7.\<close>

definition mixed_db :: db where
  "mixed_db = demo_db [demo_product 1 100 [] 1, demo_product 2 250 [] 0]
                      [demo_row 7 1 [] 1, demo_row 7 2 [] 1]"

text \<open>The same again, with a row of user 8 in front.\<close>

definition two_user_db :: db where
  "two_user_db = demo_db [demo_product 1 100 [] 1, demo_product 2 250 [] 0]
                         [demo_row 8 1 [] 3, demo_row 7 1 [] 1, demo_row 7 2 [] 1]"

text \<open>A cart whose only row is of a product that is switched off.\<close>

definition stale_db :: db where
  "stale_db = demo_db [demo_product 2 250 [] 0] [demo_row 7 2 [] 1]"

definition shop_cfg :: config where
  "shop_cfg = \<lparr>ADMIN_IDS = [Some 99], ADMIN_USERNAME = cps ''owner'', py_lower = (\<lambda>t. t)\<rparr>"

definition sess_at :: "step \<Rightarrow> session" where
  "sess_at st = cleared\<lparr>s_state := Some st\<rparr>"

definition full_session :: session where
  "full_session =
     \<lparr>s_state = Some Confirm, s_full_name = Some (cps ''Ada Lovelace''),
      s_phone = Some (cps ''+380981234567''), s_city = Some (cps ''Kyiv''),
      s_np_type = Some (cps ''branch''), s_np_point = Some (cps ''12''),
      s_payment = Some payment_cod, s_comment = Some (cps ''-'')\<rparr>"

definition full_fields :: order_fields where
  "full_fields =
     \<lparr>f_full_name = cps ''Ada Lovelace'', f_phone = cps ''+380981234567'', f_city = cps ''Kyiv'',
      f_np_type = cps ''branch'', f_np_point = cps ''12'', f_payment = payment_cod,
      f_comment = cps ''-''\<rparr>"

definition demo_env :: "nat option \<Rightarrow> (nat \<Rightarrow> int \<Rightarrow> bool) \<Rightarrow> env" where
  "demo_env fault send = \<lparr>e_now = cps ''2026-01-01 10:00:00'', e_fault = fault, e_send = send\<rparr>"

section \<open>Properties of the cart store\<close>

lemmas demo_defs = shop_db_def mixed_db_def two_user_db_def stale_db_def demo_db_def demo_product_def demo_row_def shop_cfg_def
  sess_at_def full_session_def full_fields_def demo_env_def cleared_def cps_def

lemma filter_key_map:
  "filter (cart_key_is u pid v) (map (\<lambda>r. if cart_key_is u pid v r then r\<lparr>c_qty := g r\<rparr> else r) xs)
   = map (\<lambda>r. r\<lparr>c_qty := g r\<rparr>) (filter (cart_key_is u pid v) xs)"
  by (induction xs) (auto simp: cart_key_is_def)

lemma select_qty_inc:
  "sql_select_qty u pid v (apply_cart_op u pid v d Increment)
   = map_option (\<lambda>q. q + 1) (sql_select_qty u pid v d)"
  by (simp add: apply_cart_op_def cart_inc_def db_execute_def sql_cart_add_qty_def
      sql_select_qty_def filter_key_map split: list.splits)

lemma select_qty_dec:
  "sql_select_qty u pid v (apply_cart_op u pid v d Decrement)
   = (case sql_select_qty u pid v d of
        None \<Rightarrow> None
      | Some q \<Rightarrow> if q \<le> 1 then None else Some (q - 1))"
  by (auto simp add: apply_cart_op_def cart_dec_def db_execute_def sql_cart_add_qty_def
      sql_cart_delete_def sql_select_qty_def filter_key_map split: list.splits)

















lemma filter_id_find:
  "distinct (map p_id ps) \<Longrightarrow>
   filter (\<lambda>p. p_id p = pid) ps = (case find (\<lambda>p. p_id p = pid) ps of None \<Rightarrow> [] | Some p \<Rightarrow> [p])"
proof (induction ps)
  case Nil
  then show ?case by simp
next
  case (Cons a ps)
  have "filter (\<lambda>p. p_id p = pid) ps = []" if "p_id a = pid"
  proof -
    have "p_id x \<noteq> pid" if "x \<in> set ps" for x
      using that \<open>p_id a = pid\<close> Cons.prems by (metis distinct.simps(2) imageI list.simps(9) set_map)
    then show ?thesis by (simp add: filter_empty_conv)
  qed
  with Cons show ?case by auto
qed

lemma matching_products:
  "products_pk d \<Longrightarrow>
   filter (\<lambda>p. p_id p = pid \<and> p_active p = 1) (products d)
   = (case find_product d pid of
        None \<Rightarrow> []
      | Some p \<Rightarrow> if p_active p = 1 then [p] else [])"
proof -
  assume pk: "products_pk d"
  have "filter (\<lambda>p. p_id p = pid \<and> p_active p = 1) (products d)
        = filter (\<lambda>p. p_active p = 1) (filter (\<lambda>p. p_id p = pid) (products d))"
    by (simp add: conj_commute)
  also have "\<dots> = (case find_product d pid of None \<Rightarrow> [] | Some p \<Rightarrow> if p_active p = 1 then [p] else [])"
    using pk by (simp add: filter_id_find products_pk_def find_product_def split: option.splits)
  finally show ?thesis .
qed

lemma sum_list_concat_map:
  "sum_list (concat xss) = sum_list (map sum_list xss)" for xss :: "int list list"
  by (induction xss) simp_all

lemma sum_list_filter_if:
  "sum_list (map (\<lambda>c. if Q c then f c else (0::int)) (filter P xs))
   = sum_list (map f (filter (\<lambda>c. P c \<and> Q c) xs))"
  by (induction xs) simp_all

lemma cart_total_spec: "products_pk d \<Longrightarrow> cart_total u d = spec_total u d"
proof -
  assume pk: "products_pk d"
  have row: "sum_list (map (\<lambda>p. c_qty c * p_price p)
               (filter (\<lambda>p. p_id p = c_product_id c \<and> p_active p = 1) (products d)))
             = (if product_active d (c_product_id c) then c_qty c * unit_price d (c_product_id c) else 0)" for c :: cart_row
    by (simp add: matching_products[OF pk] product_active_def unit_price_def split: option.splits)
  have "cart_total u d
        = sum_list (map (\<lambda>c. if product_active d (c_product_id c)
                             then c_qty c * unit_price d (c_product_id c) else 0)
                        (filter (\<lambda>c. c_user_id c = u) (cart d)))"
    unfolding cart_total_def cart_join_def
    by (simp add: sum_list_concat_map map_concat comp_def row)
  also have "\<dots> = spec_total u d"
    unfolding spec_total_def
    by (simp add: sum_list_filter_if)
  finally show ?thesis .
qed

lemma find_map_keep_id:
  "(\<And>p. p_id (g p) = p_id p) \<Longrightarrow>
   find (\<lambda>p. p_id p = pid) (map g ps) = map_option g (find (\<lambda>p. p_id p = pid) ps)"
  by (induction ps) simp_all

lemma set_active_products:
  "find_product (d\<lparr>products := map (\<lambda>p. if p_id p = pid then p\<lparr>p_active := a\<rparr> else p) (products d)\<rparr>) pid'
   = map_option (\<lambda>p. if p_id p = pid then p\<lparr>p_active := a\<rparr> else p) (find_product d pid')"
  by (simp add: find_product_def find_map_keep_id)

lemma find_product_id: "find_product d pid = Some p \<Longrightarrow> p_id p = pid \<and> p \<in> set (products d)"
  by (auto simp: find_product_def find_Some_iff)

lemma sum_list_split:
  "sum_list (map f (filter P xs))
   = sum_list (map f (filter (\<lambda>x. P x \<and> \<not> Q x) xs)) + sum_list (map f (filter (\<lambda>x. P x \<and> Q x) xs))"
  for f :: "'a \<Rightarrow> int"
  by (induction xs) simp_all

lemma toggle_twice_products:
  assumes "products_pk d" "find_product d pid = Some p" "p_active p = 1"
  shows "map (\<lambda>q. if p_id q = pid then q\<lparr>p_active := 1\<rparr> else q)
           (map (\<lambda>q. if p_id q = pid then q\<lparr>p_active := 0\<rparr> else q) (products d)) = products d"
proof -
  have "q = p" if "q \<in> set (products d)" "p_id q = pid" for q
  proof -
    from assms(1) have "inj_on p_id (set (products d))"
      by (simp add: products_pk_def distinct_map)
    with that find_product_id[OF assms(2)] show ?thesis by (auto dest: inj_onD)
  qed
  with assms(3) have "((\<lambda>q. if p_id q = pid then q\<lparr>p_active := 1\<rparr> else q)
                        \<circ> (\<lambda>q. if p_id q = pid then q\<lparr>p_active := 0\<rparr> else q)) q = q"
    if "q \<in> set (products d)" for q
    using that by auto
  then show ?thesis unfolding map_map by (rule map_idI)
qed

lemma cart_items_product:
  "i \<in> set (cart_items u d) \<Longrightarrow>
   \<exists>p \<in> set (products d). p_id p = it_product_id i \<and> p_active p = 1"
  by (auto simp: cart_items_def cart_join_def)

text \<open>
  C7. With product ids unique (the primary key of \<open>products\<close>), \<open>cart_total\<close> is the
  specification's total: the sum of quantity times unit price over the user's cart rows
  whose product has the active flag set. When an admin toggles an active product, the
  cart rows stay, the total drops by exactly the contribution of that product's rows, the
  listing holds no row of that product, and a second toggle gives back the database as
  it was, hence the old total.
\<close>

theorem total_counts_active_products:
  assumes "products_pk d"
  shows "cart_total u d = spec_total u d
       \<and> (is_admin_user cfg a an \<and> find_product d pid = Some p \<and> p_active p = 1 \<longrightarrow>
            (case admin_toggle cfg a an pid d of
               Inl e \<Rightarrow> False
             | Inr (d', rs) \<Rightarrow>
                 cart d' = cart d
                 \<and> cart_total u d' = cart_total u d
                      - sum_list (map (\<lambda>c. c_qty c * p_price p)
                                      (filter (\<lambda>c. c_user_id c = u \<and> c_product_id c = pid) (cart d)))
                 \<and> list_all (\<lambda>i. it_product_id i \<noteq> pid) (cart_items u d')
                 \<and> (case admin_toggle cfg a an pid d' of
                       Inl e \<Rightarrow> False
                     | Inr (d'', rs') \<Rightarrow> d'' = d)))"
proof (intro conjI impI)
  show "cart_total u d = spec_total u d" by (rule cart_total_spec[OF assms])
next
  assume h: "is_admin_user cfg a an \<and> find_product d pid = Some p \<and> p_active p = 1"
  define g :: "product \<Rightarrow> product"
    where "g = (\<lambda>q. if p_id q = pid then q\<lparr>p_active := 0\<rparr> else q)"
  define d' where "d' = d\<lparr>products := map g (products d)\<rparr>"
  from h have pid: "p_id p = pid" "p \<in> set (products d)" using find_product_id by blast+
  then obtain q qs where flt: "filter (\<lambda>p. p_id p = pid) (products d) = q # qs"
    by (cases "filter (\<lambda>p. p_id p = pid) (products d)") (auto simp: filter_empty_conv)
  with assms h have q: "q = p"
    by (simp add: filter_id_find products_pk_def find_product_def)
  have t1: "admin_toggle cfg a an pid d = Inr (d', [Answer_updated, Products_page pid, Answer])"
    using h flt q by (simp add: admin_toggle_def db_execute_def sql_set_active_def d'_def g_def)
  have cart_d': "cart d' = cart d" by (simp add: d'_def)
  have pk': "products_pk d'"
    using assms by (simp add: products_pk_def d'_def g_def comp_def if_distrib cong: if_cong)
  have fp': "find_product d' x = map_option g (find_product d x)" for x
    unfolding d'_def g_def by (rule set_active_products)
  have act': "product_active d' x = (x \<noteq> pid \<and> product_active d x)" for x
    using find_product_id[of d x]
    by (auto simp: product_active_def fp' g_def split: option.splits)
  have price': "unit_price d' x = unit_price d x" for x
    by (simp add: unit_price_def fp' g_def split: option.splits)
  have "cart_total u d = spec_total u d" by (rule cart_total_spec[OF assms])
  also have "\<dots> = spec_total u d'
      + sum_list (map (\<lambda>c. c_qty c * unit_price d (c_product_id c))
          (filter (\<lambda>c. (c_user_id c = u \<and> product_active d (c_product_id c)) \<and> c_product_id c = pid) (cart d)))"
    unfolding spec_total_def
    by (subst sum_list_split[where Q = "\<lambda>c. c_product_id c = pid"])
      (simp add: act' price' cart_d' conj_commute conj_left_commute)
  also have "(filter (\<lambda>c. (c_user_id c = u \<and> product_active d (c_product_id c)) \<and> c_product_id c = pid) (cart d))
      = filter (\<lambda>c. c_user_id c = u \<and> c_product_id c = pid) (cart d)"
    using h by (intro filter_cong) (auto simp: product_active_def)
  also have "sum_list (map (\<lambda>c. c_qty c * unit_price d (c_product_id c)) \<dots>)
      = sum_list (map (\<lambda>c. c_qty c * p_price p) \<dots>)"
    using h by (intro arg_cong[of _ _ sum_list] map_cong) (auto simp: unit_price_def)
  finally have tot: "cart_total u d' = cart_total u d
       - sum_list (map (\<lambda>c. c_qty c * p_price p)
                   (filter (\<lambda>c. c_user_id c = u \<and> c_product_id c = pid) (cart d)))"
    by (simp add: cart_total_spec[OF pk'])
  have items: "list_all (\<lambda>i. it_product_id i \<noteq> pid) (cart_items u d')"
    unfolding list_all_iff
  proof
    fix i assume "i \<in> set (cart_items u d')"
    then obtain r where "r \<in> set (products d')" "p_id r = it_product_id i" "p_active r = 1"
      using cart_items_product by blast
    then show "it_product_id i \<noteq> pid" by (auto simp: d'_def g_def split: if_splits)
  qed
  have flt': "filter (\<lambda>p. p_id p = pid) (products d') = g p # map g qs"
    using flt q by (simp add: d'_def filter_map comp_def g_def cong: if_cong)
  have "d'\<lparr>products := map (\<lambda>q. if p_id q = pid then q\<lparr>p_active := 1\<rparr> else q) (products d')\<rparr> = d"
    using toggle_twice_products[OF assms] h by (simp add: d'_def g_def)
  then have t2: "admin_toggle cfg a an pid d' = Inr (d, [Answer_updated, Products_page pid, Answer])"
    using h flt' by (simp add: admin_toggle_def db_execute_def sql_set_active_def g_def pid)
  show "case admin_toggle cfg a an pid d of
               Inl e \<Rightarrow> False
             | Inr (d', rs) \<Rightarrow>
                 cart d' = cart d
                 \<and> cart_total u d' = cart_total u d
                      - sum_list (map (\<lambda>c. c_qty c * p_price p)
                                      (filter (\<lambda>c. c_user_id c = u \<and> c_product_id c = pid) (cart d)))
                 \<and> list_all (\<lambda>i. it_product_id i \<noteq> pid) (cart_items u d')
                 \<and> (case admin_toggle cfg a an pid d' of
                       Inl e \<Rightarrow> False
                     | Inr (d'', rs') \<Rightarrow> d'' = d)"
    by (simp add: t1 t2 tot items) (simp add: d'_def)
qed

theorem total_counts_active_products_witness:
  "products_pk shop_db \<and> is_admin_user shop_cfg 99 None
   \<and> find_product shop_db 1 = Some (demo_product 1 100 [] 1)
   \<and> p_active (demo_product 1 100 [] 1) = 1
   \<and> cart_total 7 shop_db = 450 \<and> spec_total 7 shop_db = 450
   \<and> (case admin_toggle shop_cfg 99 None 1 shop_db of
         Inl e \<Rightarrow> False
       | Inr (d', rs) \<Rightarrow>
           cart d' = cart shop_db \<and> cart_total 7 d' = 250
           \<and> list_all (\<lambda>i. it_product_id i \<noteq> 1) (cart_items 7 d')
           \<and> (case admin_toggle shop_cfg 99 None 1 d' of
                 Inl e \<Rightarrow> False
               | Inr (d'', rs') \<Rightarrow> d'' = shop_db))"
proof -
  have pk: "products_pk shop_db" by (simp add: products_pk_def demo_defs)
  have h: "is_admin_user shop_cfg 99 None \<and> find_product shop_db 1 = Some (demo_product 1 100 [] 1)
           \<and> p_active (demo_product 1 100 [] 1) = 1"
    by (simp add: is_admin_user_def find_product_def demo_defs)
  have t: "spec_total 7 shop_db = 450"
    by (simp add: spec_total_def product_active_def unit_price_def find_product_def demo_defs)
  have c: "sum_list (map (\<lambda>c. c_qty c * p_price (demo_product 1 100 [] 1))
             (filter (\<lambda>c. c_user_id c = 7 \<and> c_product_id c = 1) (cart shop_db))) = 200"
    by (simp add: demo_defs)
  note inst = total_counts_active_products[OF pk, of 7 shop_cfg 99 None 1 "demo_product 1 100 [] 1"]
  from inst have tot: "cart_total 7 shop_db = 450" by (simp add: t)
  from inst h obtain d' rs where t1: "admin_toggle shop_cfg 99 None 1 shop_db = Inr (d', rs)"
    by (auto split: sum.splits)
  from inst h t1 have A: "cart d' = cart shop_db" "cart_total 7 d' = 250"
    "list_all (\<lambda>i. it_product_id i \<noteq> 1) (cart_items 7 d')"
    "case admin_toggle shop_cfg 99 None 1 d' of Inl e \<Rightarrow> False | Inr (d'', rs') \<Rightarrow> d'' = shop_db"
    by (simp_all add: c tot)
  from A(4) obtain rs' where t2: "admin_toggle shop_cfg 99 None 1 d' = Inr (shop_db, rs')"
    by (auto split: sum.splits)
  show ?thesis by (simp add: pk h t tot t1 t2 A)
qed

section \<open>Properties of the order commit\<close>














text \<open>
  C2. In the confirmation step, when the listing of the user's cart (the rows whose
  product is active) is empty as confirm is pressed, the handler stops there: the stored
  database is unchanged (no order row, no item row, the cart as it was), the reply is
  the "cart is empty" alert, nothing is sent, and the session is unchanged, still in the
  confirmation step, where the cancel button ends it.
\<close>

theorem empty_cart_aborts_commit:
  assumes "s_state s = Some Confirm" and "cart_items u d = []"
  shows "checkout_confirm cfg ev u uname chat s (cps ''checkout:confirm'') d
           = Some \<lparr>r_db = d, r_session = s, r_raised = None, r_replies = [Alert_cart_empty],
                   r_sends = []\<rparr>
       \<and> checkout_cancel s (cps ''checkout:cancel'') = Some (cleared, [Cancelled, Answer])"
  using assms by (simp add: checkout_confirm_def checkout_cancel_def)

theorem empty_cart_aborts_commit_witness:
  "s_state full_session = Some Confirm \<and> cart_items 7 stale_db = []
   \<and> cart stale_db = [demo_row 7 2 [] 1]
   \<and> checkout_confirm shop_cfg (demo_env None (\<lambda>k i. True)) 7 None 7 full_session
          (cps ''checkout:confirm'') stale_db
       = Some \<lparr>r_db = stale_db, r_session = full_session, r_raised = None,
               r_replies = [Alert_cart_empty], r_sends = []\<rparr>
   \<and> checkout_cancel full_session (cps ''checkout:cancel'') = Some (cleared, [Cancelled, Answer])"
proof -
  have h: "s_state full_session = Some Confirm" "cart_items 7 stale_db = []"
    by (simp_all add: cart_items_def cart_join_def demo_defs)
  have c: "cart stale_db = [demo_row 7 2 [] 1]" by (simp add: stale_db_def demo_db_def)
  show ?thesis
    using empty_cart_aborts_commit[OF h, of shop_cfg "demo_env None (\<lambda>k i. True)" None 7] h c
    by simp
qed




section \<open>Properties of the notification\<close>

lemma valid_targets_Cons:
  "valid_targets (a # rest)
   = (case a of None \<Rightarrow> [] | Some i \<Rightarrow> if i = 0 then [] else [i]) @ valid_targets rest"
  by (simp add: valid_targets_def)

lemma notify_admins_spec:
  "notify_admins send k ids =
     (let ts = valid_targets ids; n = failed_attempts send k ts in
      (map Failed (take n ts) @ (if n < length ts then [Sent (ts ! n)] else []), n < length ts))"
proof (induction ids arbitrary: k)
  case Nil
  then show ?case by (simp add: valid_targets_def failed_attempts_def)
next
  case (Cons a rest)
  show ?case
  proof (cases a)
    case None
    then show ?thesis by (simp add: Cons.IH valid_targets_Cons)
  next
    case (Some i)
    show ?thesis
    proof (cases "i = 0")
      case True
      with Some show ?thesis by (simp add: Cons.IH valid_targets_Cons)
    next
      case False
      with Some show ?thesis
        by (simp add: Cons.IH valid_targets_Cons failed_attempts_def Let_def)
    qed
  qed
qed

lemma notify_spec: "notify send ids chat = spec_dispatch send (valid_targets ids) chat"
proof -
  have le: "failed_attempts send 0 ts \<le> length ts" for ts
    unfolding failed_attempts_def
    by (rule order_trans[OF length_takeWhile_le]) simp
  show ?thesis
    using le[of "valid_targets ids"]
    by (simp add: notify_def notify_admins_spec spec_dispatch_def Let_def)
qed

lemma checkout_confirm_send_free:
  "map_option (\<lambda>r. (r_db r, r_session r, r_raised r, r_replies r))
     (checkout_confirm cfg (ev\<lparr>e_send := send'\<rparr>) u uname chat s cdata d)
   = map_option (\<lambda>r. (r_db r, r_session r, r_raised r, r_replies r))
     (checkout_confirm cfg ev u uname chat s cdata d)"
  by (simp add: checkout_confirm_def Let_def split: option.splits sum.splits)

lemma checkout_confirm_sends:
  "case checkout_confirm cfg ev u uname chat s cdata d of
     None \<Rightarrow> True
   | Some r \<Rightarrow>
       (case r_replies r of
          [Order_done oid, Answer_done] \<Rightarrow>
            r_raised r = None
            \<and> r_sends r = spec_dispatch (e_send ev) (valid_targets (ADMIN_IDS cfg)) chat
        | _ \<Rightarrow> r_sends r = [])"
  by (simp add: checkout_confirm_def Let_def notify_spec split: option.splits sum.splits)

text \<open>
  C10. The sends of a commit are those of the specification's dispatcher over the
  configured identities that are neither null nor zero: in order, a logged failure for
  each identity up to the first success, then nothing more; when none succeeds (or none
  is configured) one send to the originating chat, logged as sent or failed. The
  outcomes of the sends have no effect on the stored database, the session, the
  exception or the replies of the handler; sends happen only after a successful commit.
\<close>

theorem notification_first_success_else_fallback:
  "notify send (ADMIN_IDS cfg) chat = spec_dispatch send (valid_targets (ADMIN_IDS cfg)) chat
   \<and> map_option (\<lambda>r. (r_db r, r_session r, r_raised r, r_replies r))
        (checkout_confirm cfg (ev\<lparr>e_send := send'\<rparr>) u uname chat s cdata d)
     = map_option (\<lambda>r. (r_db r, r_session r, r_raised r, r_replies r))
        (checkout_confirm cfg ev u uname chat s cdata d)
   \<and> (case checkout_confirm cfg ev u uname chat s cdata d of
         None \<Rightarrow> True
       | Some r \<Rightarrow>
           (case r_replies r of
              [Order_done oid, Answer_done] \<Rightarrow>
                r_raised r = None
                \<and> r_sends r = spec_dispatch (e_send ev) (valid_targets (ADMIN_IDS cfg)) chat
            | _ \<Rightarrow> r_sends r = []))"
  using notify_spec checkout_confirm_send_free checkout_confirm_sends by blast

theorem notification_first_success_else_fallback_witness:
  "notify (\<lambda>k i. i = 5) [None, Some 0, Some 3, Some 5, Some 6] 42 = [Failed 3, Sent 5]
   \<and> notify (\<lambda>k i. False) [None, Some 0, Some 3] 42 = [Failed 3, Fallback_failed 42]
   \<and> notify (\<lambda>k i. i = 42) [None, Some 0] 42 = [Fallback_sent 42]
   \<and> spec_dispatch (\<lambda>k i. i = 5) (valid_targets (ADMIN_IDS (shop_cfg\<lparr>ADMIN_IDS := [None, Some 0, Some 3, Some 5, Some 6]\<rparr>))) 42
       = [Failed 3, Sent 5]"
  using notification_first_success_else_fallback[of "\<lambda>k i. i = 5"
      "shop_cfg\<lparr>ADMIN_IDS := [None, Some 0, Some 3, Some 5, Some 6]\<rparr>" 42]
  by (simp add: notify_def)

section \<open>Properties of the checkout steps\<close>

lemma split_on_hd: "split_on sep xs = takeWhile (\<lambda>c. c \<noteq> sep) xs # tl (split_on sep xs)"
  by (induction xs) (auto split: list.splits)

lemma split_np_type: "split_on 58 (cps ''np:type:'' @ rest) = cps ''np'' # cps ''type'' # split_on 58 rest"
  by (simp add: cps_def)

lemma split_pay: "split_on 58 (cps ''pay:'' @ rest) = cps ''pay'' # split_on 58 rest"
  by (simp add: cps_def)

lemma co_np_type_eq:
  assumes st: "s_state s = Some Np_type"
  shows "co_np_type s cdata =
     (if prefix (cps ''np:type:'') cdata
      then Some (Inr (s\<lparr>s_np_type := Some (takeWhile (\<lambda>c. c \<noteq> 58) (drop 8 cdata)),
                       s_state := Some Np_point\<rparr>,
                     [if takeWhile (\<lambda>c. c \<noteq> 58) (drop 8 cdata) = cps ''branch''
                      then Prompt_branch else Prompt_locker, Answer]))
      else None)"
proof (cases "prefix (cps ''np:type:'') cdata")
  case False
  then show ?thesis by (simp add: co_np_type_def)
next
  case True
  then obtain rest where r: "cdata = cps ''np:type:'' @ rest" by (auto simp: prefix_def)
  have len: "length (cps ''np:type:'') = 8" by (simp add: cps_def)
  have "drop 2 (split_on 58 cdata) = takeWhile (\<lambda>c. c \<noteq> 58) rest # tl (split_on 58 rest)"
    unfolding r split_np_type using split_on_hd[of 58 rest] by simp
  with True st show ?thesis
    by (simp add: co_np_type_def r len)
qed

lemma co_payment_eq:
  assumes st: "s_state s = Some Payment"
  shows "co_payment s cdata =
     (if prefix (cps ''pay:'') cdata
      then Some (Inr (s\<lparr>s_payment := Some (if takeWhile (\<lambda>c. c \<noteq> 58) (drop 4 cdata) = cps ''cod''
                                              then payment_cod else payment_prepay),
                       s_state := Some Comment\<rparr>,
                     [Prompt_comment, Answer]))
      else None)"
proof (cases "prefix (cps ''pay:'') cdata")
  case False
  then show ?thesis by (simp add: co_payment_def)
next
  case True
  then obtain rest where r: "cdata = cps ''pay:'' @ rest" by (auto simp: prefix_def)
  have len: "length (cps ''pay:'') = 4" by (simp add: cps_def)
  have "drop 1 (split_on 58 cdata) = takeWhile (\<lambda>c. c \<noteq> 58) rest # tl (split_on 58 rest)"
    unfolding r split_pay using split_on_hd[of 58 rest] by simp
  with True st show ?thesis
    by (simp add: co_payment_def r len)
qed


text \<open>
  C4, as stated, fails. The token \<open>xyz\<close> is none of branch, locker, cod and prepay, yet
  the callback data \<open>np:type:xyz\<close> in the delivery-type step and \<open>pay:xyz\<close> in the
  payment step are handled: the first stores \<open>xyz\<close> as delivery type, the second stores
  the prepayment label, and both move the session one step on.
\<close>

theorem choice_steps_closed_enum_counterexample:
  "cps ''xyz'' \<noteq> cps ''branch'' \<and> cps ''xyz'' \<noteq> cps ''locker''
   \<and> cps ''xyz'' \<noteq> cps ''cod'' \<and> cps ''xyz'' \<noteq> cps ''prepay''
   \<and> co_np_type (sess_at Np_type) (cps ''np:type:xyz'')
       = Some (Inr ((sess_at Np_type)\<lparr>s_np_type := Some (cps ''xyz''), s_state := Some Np_point\<rparr>,
                    [Prompt_locker, Answer]))
   \<and> co_payment (sess_at Payment) (cps ''pay:xyz'')
       = Some (Inr ((sess_at Payment)\<lparr>s_payment := Some payment_prepay, s_state := Some Comment\<rparr>,
                    [Prompt_comment, Answer]))
   \<and> (sess_at Np_type)\<lparr>s_np_type := Some (cps ''xyz''), s_state := Some Np_point\<rparr> \<noteq> sess_at Np_type
   \<and> (sess_at Payment)\<lparr>s_payment := Some payment_prepay, s_state := Some Comment\<rparr> \<noteq> sess_at Payment"
  by (simp add: co_np_type_def co_payment_def sess_at_def cleared_def cps_def)

text \<open>
  C4, amended. In the delivery-type step the handler takes exactly the callbacks whose
  data starts with \<open>np:type:\<close>; it stores the token that follows (up to the next
  colon), whatever it is, and moves the state one step on to the delivery point; the
  token branch asks for a branch, every other token for a locker. In the payment step
  the handler takes exactly the callbacks whose data starts with \<open>pay:\<close>; the token
  cod stores cash on delivery, every other token stores prepayment, and the state moves
  one step on to the comment. A callback without the prefix is not taken by the
  handler of the step.
\<close>

theorem choice_steps_accept_prefixed_tokens:
  "(s_state s = Some Np_type \<longrightarrow>
      co_np_type s cdata =
        (if prefix (cps ''np:type:'') cdata
         then Some (Inr (s\<lparr>s_np_type := Some (takeWhile (\<lambda>c. c \<noteq> 58) (drop 8 cdata)),
                          s_state := Some Np_point\<rparr>,
                        [if takeWhile (\<lambda>c. c \<noteq> 58) (drop 8 cdata) = cps ''branch''
                         then Prompt_branch else Prompt_locker, Answer]))
         else None))
   \<and> (s_state s = Some Payment \<longrightarrow>
      co_payment s cdata =
        (if prefix (cps ''pay:'') cdata
         then Some (Inr (s\<lparr>s_payment := Some (if takeWhile (\<lambda>c. c \<noteq> 58) (drop 4 cdata) = cps ''cod''
                                                 then payment_cod else payment_prepay),
                          s_state := Some Comment\<rparr>,
                        [Prompt_comment, Answer]))
         else None))"
  using co_np_type_eq co_payment_eq by blast

theorem choice_steps_accept_prefixed_tokens_witness:
  "s_state (sess_at Np_type) = Some Np_type
   \<and> co_np_type (sess_at Np_type) (cps ''np:type:branch'')
       = Some (Inr ((sess_at Np_type)\<lparr>s_np_type := Some (cps ''branch''), s_state := Some Np_point\<rparr>,
                    [Prompt_branch, Answer]))
   \<and> co_np_type (sess_at Np_type) (cps ''home'') = None
   \<and> s_state (sess_at Payment) = Some Payment
   \<and> co_payment (sess_at Payment) (cps ''pay:cod'')
       = Some (Inr ((sess_at Payment)\<lparr>s_payment := Some payment_cod, s_state := Some Comment\<rparr>,
                    [Prompt_comment, Answer]))
   \<and> co_payment (sess_at Payment) (cps ''np:type:branch'') = None"
proof -
  have h: "s_state (sess_at Np_type) = Some Np_type" "s_state (sess_at Payment) = Some Payment"
    by (simp_all add: sess_at_def)
  have p: "prefix (cps ''np:type:'') (cps ''np:type:branch'')" "\<not> prefix (cps ''np:type:'') (cps ''home'')"
    "prefix (cps ''pay:'') (cps ''pay:cod'')" "\<not> prefix (cps ''pay:'') (cps ''np:type:branch'')"
    "takeWhile (\<lambda>c. c \<noteq> 58) (drop 8 (cps ''np:type:branch'')) = cps ''branch''"
    "takeWhile (\<lambda>c. c \<noteq> 58) (drop 4 (cps ''pay:cod'')) = cps ''cod''"
    by (simp_all add: cps_def)
  show ?thesis
    using choice_steps_accept_prefixed_tokens[of "sess_at Np_type" "cps ''np:type:branch''"]
      choice_steps_accept_prefixed_tokens[of "sess_at Np_type" "cps ''home''"]
      choice_steps_accept_prefixed_tokens[of "sess_at Payment" "cps ''pay:cod''"]
      choice_steps_accept_prefixed_tokens[of "sess_at Payment" "cps ''np:type:branch''"]
    by (simp add: h p)
qed



section \<open>Cart writes and the product check\<close>

text \<open>
  C8, as stated, fails for the plain add. Product 2 is switched off and product 5 does
  not exist: \<open>cart_add\<close> answers "not found" and stores nothing, so the product is
  checked on the write path.
\<close>

theorem cart_add_checks_product_counterexample:
  "cart_add 7 2 mixed_db = Inr (mixed_db, [Alert_not_found])
   \<and> cart_add 7 5 shop_db = Inr (shop_db, [Alert_not_found])
   \<and> sql_select_qty 7 5 [] shop_db = None"
  by (simp add: cart_add_def sql_select_qty_def cart_key_is_def demo_defs)

lemma cart_add_variant_qty:
  "case cart_add_variant u pid v d of
     Inl e \<Rightarrow> False
   | Inr (d', rs) \<Rightarrow>
       sql_select_qty u pid v d' = Some (case sql_select_qty u pid v d of None \<Rightarrow> 1 | Some q \<Rightarrow> q + 1)
       \<and> products d' = products d"
proof (cases "list_ex (cart_key_is u pid v) (cart d)")
  case True
  then obtain r rs where "filter (cart_key_is u pid v) (cart d) = r # rs"
    by (cases "filter (cart_key_is u pid v) (cart d)") (auto simp: list_ex_iff filter_empty_conv)
  with True show ?thesis
    by (simp add: cart_add_variant_def db_execute_def sql_cart_upsert_def connect_foreign_keys_def
        sql_select_qty_def filter_key_map)
next
  case False
  then have "filter (cart_key_is u pid v) (cart d) = []"
    by (simp add: list_ex_iff filter_empty_conv)
  moreover have "cart_key_is u pid v \<lparr>c_user_id = u, c_product_id = pid, c_variant = v, c_qty = 1\<rparr>"
    by (simp add: cart_key_is_def)
  ultimately show ?thesis
    using False
    by (simp add: cart_add_variant_def db_execute_def sql_cart_upsert_def connect_foreign_keys_def
        sql_select_qty_def)
qed

lemma cart_inc_qty:
  "case cart_inc u pid v d of
     Inl e \<Rightarrow> False
   | Inr (d', rs) \<Rightarrow> sql_select_qty u pid v d' = map_option (\<lambda>q. q + 1) (sql_select_qty u pid v d)"
  using select_qty_inc[of u pid v d]
  by (simp add: apply_cart_op_def cart_inc_def db_execute_def sql_cart_add_qty_def)

lemma cart_dec_qty:
  "case cart_dec u pid v d of
     Inl e \<Rightarrow> False
   | Inr (d', rs) \<Rightarrow>
       sql_select_qty u pid v d'
       = (case sql_select_qty u pid v d of None \<Rightarrow> None | Some q \<Rightarrow> if q \<le> 1 then None else Some (q - 1))"
  using select_qty_dec[of u pid v d]
  by (auto simp add: apply_cart_op_def cart_dec_def db_execute_def sql_cart_add_qty_def
      sql_cart_delete_def split: option.splits)

lemma cart_del_qty:
  "case cart_del u pid v d of
     Inl e \<Rightarrow> False
   | Inr (d', rs) \<Rightarrow> sql_select_qty u pid v d' = None"
  by (simp add: cart_del_def db_execute_def sql_cart_delete_def sql_select_qty_def)

lemma no_active_product_join:
  assumes "\<not> list_ex (\<lambda>p. p_id p = pid \<and> p_active p = 1) (products d)"
  shows "cart_join u d = cart_join u (d\<lparr>cart := filter (\<lambda>r. c_product_id r \<noteq> pid) (cart d)\<rparr>)"
proof -
  have e: "filter (\<lambda>p. p_id p = pid \<and> p_active p = 1) (products d) = []"
    using assms by (auto simp: list_ex_iff filter_empty_conv)
  have "concat (map (\<lambda>c. map (\<lambda>p. (c, p))
                         (filter (\<lambda>p. p_id p = c_product_id c \<and> p_active p = 1) (products d))) xs)
        = concat (map (\<lambda>c. map (\<lambda>p. (c, p))
                         (filter (\<lambda>p. p_id p = c_product_id c \<and> p_active p = 1) (products d)))
                 (filter (\<lambda>r. c_product_id r \<noteq> pid) xs))" for xs :: "cart_row list"
    by (induction xs) (simp_all add: e)
  from this[of "filter (\<lambda>c. c_user_id c = u) (cart d)"] show ?thesis
    by (simp add: cart_join_def conj_commute)
qed

lemma cart_add_not_found:
  "\<not> list_ex (\<lambda>p. p_id p = pid \<and> p_active p = 1) (products d) \<Longrightarrow>
   cart_add u pid d = Inr (d, [Alert_not_found])"
  by (simp add: cart_add_def list_ex_iff filter_empty_conv split: list.splits)

text \<open>
  C8, amended. The plain add checks the product when it writes: for a product that does
  not exist or is not active it stores nothing and answers "not found". Add with
  variant, increment, decrement and remove never look at the product: whatever the
  products table holds, add with variant leaves the row with quantity 1 or one more
  than before, increment adds one to an existing row, decrement takes one off or
  deletes the row, remove deletes it. Rows of a product that does not exist or is not
  active are left out of the listing and add nothing to the total.
\<close>

theorem cart_writes_and_product_check:
  "(\<not> list_ex (\<lambda>p. p_id p = pid \<and> p_active p = 1) (products d) \<longrightarrow>
       cart_add u pid d = Inr (d, [Alert_not_found])
     \<and> list_all (\<lambda>i. it_product_id i \<noteq> pid) (cart_items u d)
     \<and> cart_total u d = cart_total u (d\<lparr>cart := filter (\<lambda>r. c_product_id r \<noteq> pid) (cart d)\<rparr>))
   \<and> (case cart_add_variant u pid v d of
         Inl e \<Rightarrow> False
       | Inr (d', rs) \<Rightarrow>
           sql_select_qty u pid v d' = Some (case sql_select_qty u pid v d of None \<Rightarrow> 1 | Some q \<Rightarrow> q + 1)
           \<and> products d' = products d)
   \<and> (case cart_inc u pid v d of
         Inl e \<Rightarrow> False
       | Inr (d', rs) \<Rightarrow> sql_select_qty u pid v d' = map_option (\<lambda>q. q + 1) (sql_select_qty u pid v d))
   \<and> (case cart_dec u pid v d of
         Inl e \<Rightarrow> False
       | Inr (d', rs) \<Rightarrow>
           sql_select_qty u pid v d'
           = (case sql_select_qty u pid v d of None \<Rightarrow> None | Some q \<Rightarrow> if q \<le> 1 then None else Some (q - 1)))
   \<and> (case cart_del u pid v d of
         Inl e \<Rightarrow> False
       | Inr (d', rs) \<Rightarrow> sql_select_qty u pid v d' = None)"
proof (intro conjI impI)
  assume h: "\<not> list_ex (\<lambda>p. p_id p = pid \<and> p_active p = 1) (products d)"
  show "cart_add u pid d = Inr (d, [Alert_not_found])" by (rule cart_add_not_found[OF h])
  show "list_all (\<lambda>i. it_product_id i \<noteq> pid) (cart_items u d)"
    unfolding list_all_iff
  proof
    fix i assume "i \<in> set (cart_items u d)"
    then obtain p where "p \<in> set (products d)" "p_id p = it_product_id i" "p_active p = 1"
      using cart_items_product by blast
    with h show "it_product_id i \<noteq> pid" by (auto simp: list_ex_iff)
  qed
  show "cart_total u d = cart_total u (d\<lparr>cart := filter (\<lambda>r. c_product_id r \<noteq> pid) (cart d)\<rparr>)"
    unfolding cart_total_def using no_active_product_join[OF h] by simp
qed (rule cart_add_variant_qty cart_inc_qty cart_dec_qty cart_del_qty)+

theorem cart_writes_and_product_check_witness:
  "\<not> list_ex (\<lambda>p. p_id p = 2 \<and> p_active p = 1) (products mixed_db)
   \<and> cart_add 7 2 mixed_db = Inr (mixed_db, [Alert_not_found])
   \<and> map it_product_id (cart_items 7 mixed_db) = [1]
   \<and> cart_total 7 mixed_db = 100
   \<and> (case cart_add_variant 7 2 (cps ''M'') mixed_db of
         Inl e \<Rightarrow> False
       | Inr (d', rs) \<Rightarrow> sql_select_qty 7 2 (cps ''M'') d' = Some 1 \<and> cart_total 7 d' = 100)
   \<and> (case cart_inc 7 2 [] mixed_db of
         Inl e \<Rightarrow> False
       | Inr (d', rs) \<Rightarrow> sql_select_qty 7 2 [] d' = Some 2)
   \<and> (case cart_dec 7 2 [] mixed_db of
         Inl e \<Rightarrow> False
       | Inr (d', rs) \<Rightarrow> sql_select_qty 7 2 [] d' = None)
   \<and> (case cart_del 7 2 [] mixed_db of
         Inl e \<Rightarrow> False
       | Inr (d', rs) \<Rightarrow> sql_select_qty 7 2 [] d' = None)"
proof -
  have h: "\<not> list_ex (\<lambda>p. p_id p = 2 \<and> p_active p = 1) (products mixed_db)"
    by (simp add: demo_defs)
  have q: "sql_select_qty 7 2 [] mixed_db = Some 1" "sql_select_qty 7 2 (cps ''M'') mixed_db = None"
    by (simp_all add: sql_select_qty_def cart_key_is_def demo_defs)
  have i: "map it_product_id (cart_items 7 mixed_db) = [1]" "cart_total 7 mixed_db = 100"
    by (simp_all add: cart_items_def cart_total_def cart_join_def demo_defs)
  have t: "case cart_add_variant 7 2 (cps ''M'') mixed_db of
         Inl e \<Rightarrow> False | Inr (d', rs) \<Rightarrow> cart_total 7 d' = 100"
    by (simp add: cart_add_variant_def db_execute_def sql_cart_upsert_def connect_foreign_keys_def
        cart_total_def cart_join_def cart_key_is_def demo_defs)
  show ?thesis
    using cart_writes_and_product_check[of 2 mixed_db 7 "cps ''M''"]
      cart_writes_and_product_check[of 2 mixed_db 7 "[]"] h t
    by (simp add: q i split: sum.splits prod.splits)
qed

section \<open>Deleting a product\<close>

text \<open>
  C9 does not hold of the code. \<open>admin_del\<close> deletes the product through
  \<open>db_execute\<close>, on a new connection that never enables foreign keys: product 1 is
  gone and the cart row of user 7 that refers to it is still stored. The same statement
  on a connection with enforcement on would have removed the row.
\<close>

theorem admin_del_leaves_cart_rows:
  "is_admin_user shop_cfg 99 None
   \<and> (case admin_del shop_cfg 99 None 1 shop_db of
         Inl e \<Rightarrow> False
       | Inr (d', rs) \<Rightarrow>
           map p_id (products d') = [2]
           \<and> cart d' = cart shop_db
           \<and> demo_row 7 1 [] 2 \<in> set (cart d'))
   \<and> (case sql_delete_product 1 True shop_db of
         Inl e \<Rightarrow> False
       | Inr d' \<Rightarrow> map c_product_id (cart d') = [2])"
  by (simp add: admin_del_def is_admin_user_def db_execute_def sql_delete_product_def
      connect_foreign_keys_def demo_defs)

end
